theory Spec2Isabelle
  imports Complex_Main
begin

section \<open>Travel planner: the POI store, its validator and the two provider gateways\<close>

text \<open>
  A shallow embedding of \<^verbatim>\<open>app.py\<close>. Python values that travel through
  \<^verbatim>\<open>json.load\<close>, \<^verbatim>\<open>json.dump\<close> and \<^verbatim>\<open>r.json()\<close> are JSON values; a Python
  \<^verbatim>\<open>dict\<close> is an association list read with \<open>map_of\<close>. Text is modelled over the
  code points 0 to 255, one \<open>char\<close> per code point. Numbers are exact rationals: the
  binary rounding of Python's floats is not part of the model.
\<close>

subsection \<open>Values and exceptions\<close>

datatype json =
    JNull
  | JBool bool
  | JNum rat
  | JStr string
  | JArr "json list"
  | JObj "(string \<times> json) list"

type_synonym pydict = "(string \<times> json) list"

text \<open>
  Every exception the handlers can raise. \<open>HTTPException\<close> carries the status code;
  its detail message is left out. An exception that is not an \<open>HTTPException\<close> leaves
  the handler unhandled.
\<close>

datatype error =
    HTTPException nat
  | FileNotFoundError
  | PermissionError
  | JSONDecodeError
  | KeyError string
  | AttributeError
  | TypeError
  | ValueError
  | IndexError
  | ValidationError "string list"
  | TransportError

subsection \<open>Text: \<^verbatim>\<open>str.strip\<close> and \<^verbatim>\<open>str.lower\<close>\<close>

text \<open>
  \<^verbatim>\<open>str.isspace\<close> below code point 256: TAB to CR, FS to US, SPACE, NEL and NBSP.
\<close>

definition isspace :: "char \<Rightarrow> bool" where
  "isspace c =
     (let n = (of_char c :: nat)
      in (9 \<le> n \<and> n \<le> 13) \<or> (28 \<le> n \<and> n \<le> 32) \<or> n = 133 \<or> n = 160)"

definition strip :: "string \<Rightarrow> string" where
  "strip s = rev (dropWhile isspace (rev (dropWhile isspace s)))"

text \<open>
  \<^verbatim>\<open>str.lower\<close> below code point 256: the upper-case letters are A to Z and
  U+00C0 to U+00DE without the multiplication sign U+00D7; each lies 32 below its
  lower-case letter.
\<close>

definition lower_char :: "char \<Rightarrow> char" where
  "lower_char c =
     (let n = (of_char c :: nat)
      in if (65 \<le> n \<and> n \<le> 90) \<or> (192 \<le> n \<and> n \<le> 222 \<and> n \<noteq> 215)
         then char_of (n + 32) else c)"

definition lower :: "string \<Rightarrow> string" where
  "lower s = map lower_char s"

subsection \<open>The persisted file\<close>

text \<open>
  \<^verbatim>\<open>pois.json\<close> is absent, cannot be opened, does not hold valid JSON, or holds a
  document. \<^verbatim>\<open>load_pois\<close> is annotated \<^verbatim>\<open>list[dict]\<close>, so a document is a list of
  dictionaries. \<^verbatim>\<open>json.dump\<close> and \<^verbatim>\<open>json.load\<close> are library code: the
  model keeps the value written, and reading a document gives that value back.
  \<open>writes\<close> counts how often the file was opened for writing; opening it for
  writing is taken to succeed.
\<close>

datatype storage = Missing | Unopenable | Garbled | Document "pydict list"

record disk =
  pois_file :: storage
  writes :: nat

definition load_pois :: "disk \<Rightarrow> error + pydict list" where
  "load_pois d =
     (case pois_file d of
        Missing \<Rightarrow> Inr []
      | Unopenable \<Rightarrow> Inl PermissionError
      | Garbled \<Rightarrow> Inl JSONDecodeError
      | Document pois \<Rightarrow> Inr pois)"

definition save_pois :: "pydict list \<Rightarrow> disk \<Rightarrow> disk" where
  "save_pois pois d = d\<lparr>pois_file := Document pois, writes := Suc (writes d)\<rparr>"

subsection \<open>The validator \<^verbatim>\<open>PoiIn\<close>\<close>

text \<open>
  The request body as parsed; \<open>tags\<close> may be absent. The model checks
  \<^verbatim>\<open>min_length=1\<close> on the name as given and the two range validators, and reports
  the fields that failed, in field order.
\<close>

record poi_body =
  body_name :: string
  body_lat :: rat
  body_lon :: rat
  body_tags :: "string list option"

record PoiIn =
  name :: string
  lat :: rat
  lon :: rat
  tags :: "string list"

definition PoiIn_validate :: "poi_body \<Rightarrow> error + PoiIn" where
  "PoiIn_validate b =
     (let errs =
        (if length (body_name b) < 1 then [''name''] else []) @
        (if \<not> (- 90 \<le> body_lat b \<and> body_lat b \<le> 90) then [''lat''] else []) @
        (if \<not> (- 180 \<le> body_lon b \<and> body_lon b \<le> 180) then [''lon''] else [])
      in if errs = []
         then Inr \<lparr>name = body_name b, lat = body_lat b, lon = body_lon b,
                   tags = (case body_tags b of None \<Rightarrow> [] | Some ts \<Rightarrow> ts)\<rparr>
         else Inl (ValidationError errs))"

subsection \<open>The handlers of the POI store\<close>

text \<open>
  \<^verbatim>\<open>list_pois\<close> opens the file without asking whether it exists.
\<close>

definition list_pois :: "disk \<Rightarrow> error + pydict list" where
  "list_pois d =
     (case pois_file d of
        Missing \<Rightarrow> Inl FileNotFoundError
      | Unopenable \<Rightarrow> Inl PermissionError
      | Garbled \<Rightarrow> Inl JSONDecodeError
      | Document pois \<Rightarrow> Inr pois)"

text \<open>
  The set comprehension \<^verbatim>\<open>{p["name"].strip().lower() for p in pois}\<close>: a missing key
  raises \<open>KeyError\<close>, a name that is not text has no \<^verbatim>\<open>strip\<close>.
\<close>

fun stored_names :: "pydict list \<Rightarrow> error + string list" where
  "stored_names [] = Inr []"
| "stored_names (p # ps) =
     (case map_of p ''name'' of
        None \<Rightarrow> Inl (KeyError ''name'')
      | Some (JStr n) \<Rightarrow>
          (case stored_names ps of
             Inl e \<Rightarrow> Inl e
           | Inr ns \<Rightarrow> Inr (lower (strip n) # ns))
      | Some _ \<Rightarrow> Inl AttributeError)"

text \<open>
  \<open>uid\<close> is the value \<^verbatim>\<open>uuid.uuid4().hex\<close> yields during the call.
\<close>

definition create_poi :: "string \<Rightarrow> PoiIn \<Rightarrow> disk \<Rightarrow> (error + pydict) \<times> disk" where
  "create_poi uid poi d =
     (case load_pois d of
        Inl e \<Rightarrow> (Inl e, d)
      | Inr pois \<Rightarrow>
          (case stored_names pois of
             Inl e \<Rightarrow> (Inl e, d)
           | Inr names \<Rightarrow>
               if lower (strip (name poi)) \<in> set names
               then (Inl (HTTPException 409), d)
               else
                 (let item = [(''id'', JStr uid),
                              (''name'', JStr (strip (name poi))),
                              (''lat'', JNum (lat poi)),
                              (''lon'', JNum (lon poi)),
                              (''tags'', JArr (map JStr (tags poi)))]
                  in (Inr item, save_pois (pois @ [item]) d))))"

definition delete_poi :: "string \<Rightarrow> disk \<Rightarrow> (error + unit) \<times> disk" where
  "delete_poi poi_id d =
     (case load_pois d of
        Inl e \<Rightarrow> (Inl e, d)
      | Inr pois \<Rightarrow>
          (let new_pois = filter (\<lambda>p. map_of p ''id'' \<noteq> Some (JStr poi_id)) pois
           in if length new_pois = length pois
              then (Inl (HTTPException 404), d)
              else (Inr (), save_pois new_pois d)))"

subsection \<open>Python built-ins used by the gateways\<close>

text \<open>
  Truth value of a value, as \<^verbatim>\<open>not v\<close> and \<^verbatim>\<open>a or b\<close> read it.
\<close>

definition truthy :: "json \<Rightarrow> bool" where
  "truthy v =
     (case v of
        JNull \<Rightarrow> False
      | JBool b \<Rightarrow> b
      | JNum r \<Rightarrow> r \<noteq> 0
      | JStr s \<Rightarrow> s \<noteq> []
      | JArr xs \<Rightarrow> xs \<noteq> []
      | JObj kvs \<Rightarrow> kvs \<noteq> [])"

text \<open>
  \<^verbatim>\<open>v.get(k, default)\<close>: only a dictionary has \<^verbatim>\<open>get\<close>.
\<close>

definition dict_get :: "json \<Rightarrow> string \<Rightarrow> json \<Rightarrow> error + json" where
  "dict_get v k dflt =
     (case v of
        JObj kvs \<Rightarrow> Inr (case map_of kvs k of None \<Rightarrow> dflt | Some x \<Rightarrow> x)
      | _ \<Rightarrow> Inl AttributeError)"

text \<open>
  \<^verbatim>\<open>v[k]\<close> with a text key, and \<^verbatim>\<open>v[0]\<close>.
\<close>

definition item :: "json \<Rightarrow> string \<Rightarrow> error + json" where
  "item v k =
     (case v of
        JObj kvs \<Rightarrow> (case map_of kvs k of None \<Rightarrow> Inl (KeyError k) | Some x \<Rightarrow> Inr x)
      | _ \<Rightarrow> Inl TypeError)"

definition first_item :: "json \<Rightarrow> error + json" where
  "first_item v =
     (case v of
        JArr xs \<Rightarrow> (case xs of [] \<Rightarrow> Inl IndexError | x # _ \<Rightarrow> Inr x)
      | JStr s \<Rightarrow> (case s of [] \<Rightarrow> Inl IndexError | c # _ \<Rightarrow> Inr (JStr [c]))
      | JObj kvs \<Rightarrow> Inl (KeyError ''0'')
      | _ \<Rightarrow> Inl TypeError)"

text \<open>
  The items a \<^verbatim>\<open>for\<close> loop or an unpacking assignment draws from a value: the
  elements of a list, the keys of a dictionary, the characters of a text.
\<close>

definition iterate :: "json \<Rightarrow> error + json list" where
  "iterate v =
     (case v of
        JArr xs \<Rightarrow> Inr xs
      | JObj kvs \<Rightarrow> Inr (map (\<lambda>kv. JStr (fst kv)) kvs)
      | JStr s \<Rightarrow> Inr (map (\<lambda>c. JStr [c]) s)
      | _ \<Rightarrow> Inl TypeError)"

text \<open>
  The left operand of \<^verbatim>\<open>/\<close>: a number, or a boolean read as 1 or 0.
\<close>

definition number :: "json \<Rightarrow> error + rat" where
  "number v =
     (case v of
        JNum r \<Rightarrow> Inr r
      | JBool b \<Rightarrow> Inr (if b then 1 else 0)
      | _ \<Rightarrow> Inl TypeError)"

text \<open>
  \<^verbatim>\<open>round(x)\<close> rounds to the nearest integer, a tie to the even one;
  \<^verbatim>\<open>round(x, n)\<close> does the same at the n-th decimal place.
\<close>

definition py_round :: "rat \<Rightarrow> int" where
  "py_round x =
     (let f = \<lfloor>x\<rfloor>; r = x - of_int f
      in if r < 1 / 2 then f
         else if 1 / 2 < r then f + 1
         else if even f then f else f + 1)"

definition py_round_digits :: "rat \<Rightarrow> nat \<Rightarrow> rat" where
  "py_round_digits x n = of_int (py_round (x * 10 ^ n)) / 10 ^ n"

subsection \<open>\<^verbatim>\<open>float(text)\<close> and \<^verbatim>\<open>text.split(",")\<close>\<close>

text \<open>
  A float is finite, infinite or not a number. A finite float is kept as the exact
  value of its decimal text; rounding to the nearest double is not modelled.
\<close>

datatype pyfloat = Finite rat | PosInf | NegInf | NaN

definition isdigit :: "char \<Rightarrow> bool" where
  "isdigit c = (48 \<le> (of_char c :: nat) \<and> (of_char c :: nat) \<le> 57)"

definition digits_value :: "string \<Rightarrow> int" where
  "digits_value ds = foldl (\<lambda>a c. 10 * a + (of_char c - 48)) 0 ds"

definition pow10 :: "int \<Rightarrow> rat" where
  "pow10 e = (if 0 \<le> e then 10 ^ nat e else 1 / 10 ^ nat (- e))"

text \<open>
  The blanks \<^verbatim>\<open>float\<close> drops at both ends: TAB to CR and SPACE, and NEL and NBSP,
  which it first turns into SPACE.
\<close>

definition float_space :: "char \<Rightarrow> bool" where
  "float_space c =
     (let n = (of_char c :: nat) in (9 \<le> n \<and> n \<le> 13) \<or> n = 32 \<or> n = 133 \<or> n = 160)"

text \<open>
  An underscore is allowed only between two digits; \<open>prev\<close> is the character before.
\<close>

fun underscores_ok :: "char \<Rightarrow> string \<Rightarrow> bool" where
  "underscores_ok prev [] = (prev \<noteq> CHR ''_'')"
| "underscores_ok prev (c # cs) =
     (if c = CHR ''_'' then isdigit prev \<and> underscores_ok c cs
      else if prev = CHR ''_'' then isdigit c \<and> underscores_ok c cs
      else underscores_ok c cs)"

text \<open>
  What may follow the mantissa: nothing, or \<^verbatim>\<open>e\<close> or \<^verbatim>\<open>E\<close>, an optional sign and at
  least one digit.
\<close>

definition parse_exponent :: "string \<Rightarrow> int option" where
  "parse_exponent s =
     (case s of
        [] \<Rightarrow> Some 0
      | c # cs \<Rightarrow>
          if c = CHR ''e'' \<or> c = CHR ''E'' then
            (let neg = (case cs of [] \<Rightarrow> False | d # _ \<Rightarrow> d = CHR ''-'');
                 ds = (case cs of
                         [] \<Rightarrow> []
                       | d # ds' \<Rightarrow> if d = CHR ''-'' \<or> d = CHR ''+'' then ds' else cs)
             in if ds \<noteq> [] \<and> list_all isdigit ds
                then Some ((if neg then - 1 else 1) * digits_value ds)
                else None)
          else None)"

text \<open>
  An unsigned decimal: digits, an optional point and more digits, at least one digit in
  all, then the exponent.
\<close>

definition parse_decimal :: "string \<Rightarrow> rat option" where
  "parse_decimal s =
     (let ip = takeWhile isdigit s;
          r1 = dropWhile isdigit s;
          pt = (case r1 of [] \<Rightarrow> False | c # _ \<Rightarrow> c = CHR ''.'');
          fp = (if pt then takeWhile isdigit (tl r1) else []);
          r2 = (if pt then dropWhile isdigit (tl r1) else r1)
      in if ip = [] \<and> fp = [] then None
         else
           (case parse_exponent r2 of
              None \<Rightarrow> None
            | Some e \<Rightarrow>
                Some (of_int (digits_value (ip @ fp)) * pow10 (e - int (length fp)))))"

text \<open>
  \<^verbatim>\<open>float(s)\<close>; \<open>None\<close> stands for its \<open>ValueError\<close>.
\<close>

definition py_float :: "string \<Rightarrow> pyfloat option" where
  "py_float s =
     (let t = rev (dropWhile float_space (rev (dropWhile float_space s)))
      in if \<not> underscores_ok (CHR 0x00) t then None
         else
           (let u = filter (\<lambda>c. c \<noteq> CHR ''_'') t;
                neg = (case u of [] \<Rightarrow> False | c # _ \<Rightarrow> c = CHR ''-'');
                b = (case u of
                       [] \<Rightarrow> []
                     | c # cs \<Rightarrow> if c = CHR ''-'' \<or> c = CHR ''+'' then cs else u)
            in if lower b = ''inf'' \<or> lower b = ''infinity''
               then Some (if neg then NegInf else PosInf)
               else if lower b = ''nan'' then Some NaN
               else
                 (case parse_decimal b of
                    None \<Rightarrow> None
                  | Some v \<Rightarrow> Some (Finite (if neg then - v else v)))))"

fun split_comma :: "string \<Rightarrow> string list" where
  "split_comma [] = [[]]"
| "split_comma (c # cs) =
     (if c = CHR '','' then [] # split_comma cs
      else (case split_comma cs of
              [] \<Rightarrow> [[c]]
            | x # xs \<Rightarrow> (c # x) # xs))"

text \<open>
  One line of the \<^verbatim>\<open>try\<close> block of \<^verbatim>\<open>route\<close>:
  \<^verbatim>\<open>lat, lon = [float(x.strip()) for x in coord.split(",")]\<close>. \<open>None\<close> stands for
  any exception raised there.
\<close>

definition parse_coord :: "string \<Rightarrow> (pyfloat \<times> pyfloat) option" where
  "parse_coord s =
     (case map (\<lambda>x. py_float (strip x)) (split_comma s) of
        [Some a, Some b] \<Rightarrow> Some (a, b)
      | _ \<Rightarrow> None)"

text \<open>
  A coordinate text is of the form "lat,lon" when splitting it at the commas gives
  exactly two parts and \<^verbatim>\<open>float\<close> accepts each part once trimmed.
\<close>

definition two_numbers :: "string \<Rightarrow> bool" where
  "two_numbers s =
     (case split_comma s of
        [x, y] \<Rightarrow> py_float (strip x) \<noteq> None \<and> py_float (strip y) \<noteq> None
      | _ \<Rightarrow> False)"

subsection \<open>The provider\<close>

text \<open>
  The two requests the gateways send, and what comes back. The provider is a function
  from the request to the response, or to the exception the HTTP client raises.
  \<open>body_json\<close> is what \<^verbatim>\<open>r.json()\<close> returns, \<open>None\<close> when the body is not JSON.
\<close>

record directions_body =
  coordinates :: "(pyfloat \<times> pyfloat) list"
  instructions :: bool
  elevation :: bool
  radiuses :: "nat list"
  preference :: string

datatype request =
    Get string "(string \<times> string) list" pydict
  | Post string "(string \<times> string) list" directions_body

record response =
  status_code :: nat
  body_json :: "json option"

type_synonym provider = "request \<Rightarrow> error + response"

definition BASE_GEO :: string where
  "BASE_GEO = ''https://api.openrouteservice.org/geocode''"

definition BASE_DIRS :: string where
  "BASE_DIRS = ''https://api.openrouteservice.org/v2/directions''"

subsection \<open>The geocoding gateway\<close>

text \<open>
  The body of the loop over the features: \<open>None\<close> when the feature adds nothing to
  the output.
\<close>

definition geocode_feature :: "json \<Rightarrow> error + json option" where
  "geocode_feature f =
     (case dict_get f ''geometry'' (JObj []) of
        Inl e \<Rightarrow> Inl e
      | Inr geom \<Rightarrow>
     (case dict_get f ''properties'' (JObj []) of
        Inl e \<Rightarrow> Inl e
      | Inr props \<Rightarrow>
     (case dict_get geom ''type'' JNull of
        Inl e \<Rightarrow> Inl e
      | Inr ty \<Rightarrow>
          if ty = JStr ''Point'' then
            (case dict_get geom ''coordinates'' (JArr [JNull, JNull]) of
               Inl e \<Rightarrow> Inl e
             | Inr cs \<Rightarrow>
            (case iterate cs of
               Inl e \<Rightarrow> Inl e
             | Inr [lon_v, lat_v] \<Rightarrow>
                 (case dict_get props ''label'' JNull of
                    Inl e \<Rightarrow> Inl e
                  | Inr lbl \<Rightarrow>
                 (case dict_get props ''name'' JNull of
                    Inl e \<Rightarrow> Inl e
                  | Inr nm \<Rightarrow>
                      Inr (Some (JObj [(''label'', if truthy lbl then lbl else nm),
                                       (''lat'', lat_v), (''lon'', lon_v)]))))
             | Inr _ \<Rightarrow> Inl ValueError))
          else Inr None)))"

fun geocode_loop :: "json list \<Rightarrow> error + json list" where
  "geocode_loop [] = Inr []"
| "geocode_loop (f # fs) =
     (case geocode_feature f of
        Inl e \<Rightarrow> Inl e
      | Inr entry \<Rightarrow>
          (case geocode_loop fs of
             Inl e \<Rightarrow> Inl e
           | Inr out \<Rightarrow> Inr (case entry of None \<Rightarrow> out | Some x \<Rightarrow> x # out)))"

definition geocode_request :: "string \<Rightarrow> string \<Rightarrow> request" where
  "geocode_request api_key q =
     Get (BASE_GEO @ ''/search'') [(''Authorization'', api_key)]
       [(''api_key'', JStr api_key), (''text'', JStr q), (''size'', JNum 5)]"

text \<open>
  The handler returns its result and the requests it sent. \<^verbatim>\<open>Query(..., min_length=2)\<close>
  rejects a shorter query before the body runs.
\<close>

definition geocode :: "string \<Rightarrow> provider \<Rightarrow> string \<Rightarrow> (error + json) \<times> request list" where
  "geocode api_key provider q =
     (if length q < 2 then (Inl (ValidationError [''q'']), [])
      else
        ((case provider (geocode_request api_key q) of
            Inl e \<Rightarrow> Inl e
          | Inr r \<Rightarrow>
              if status_code r \<noteq> 200 then Inl (HTTPException (status_code r))
              else
                (case body_json r of
                   None \<Rightarrow> Inl JSONDecodeError
                 | Some data \<Rightarrow>
                (case dict_get data ''features'' (JArr []) of
                   Inl e \<Rightarrow> Inl e
                 | Inr fv \<Rightarrow>
                (case iterate fv of
                   Inl e \<Rightarrow> Inl e
                 | Inr fs \<Rightarrow>
                (case geocode_loop fs of
                   Inl e \<Rightarrow> Inl e
                 | Inr out \<Rightarrow> Inr (JObj [(''results'', JArr out)])))))),
         [geocode_request api_key q]))"

subsection \<open>The routing gateway\<close>

record route_result =
  geojson :: json
  distance_km :: rat
  duration_min :: int
  profile :: string

definition route_request ::
  "string \<Rightarrow> string \<Rightarrow> pyfloat \<times> pyfloat \<Rightarrow> pyfloat \<times> pyfloat \<Rightarrow> request" where
  "route_request api_key prof f t =
     Post (BASE_DIRS @ ''/'' @ prof @ ''/geojson'')
       [(''Authorization'', api_key), (''Content-Type'', ''application/json'')]
       \<lparr>coordinates = [(snd f, fst f), (snd t, fst t)],
        instructions = False, elevation = False,
        radiuses = [50, 50], preference = ''recommended''\<rparr>"

text \<open>
  What \<^verbatim>\<open>route\<close> does with a response of status 200.
\<close>

definition route_answer :: "string \<Rightarrow> response \<Rightarrow> error + route_result" where
  "route_answer prof r =
     (case body_json r of
        None \<Rightarrow> Inl JSONDecodeError
      | Some data \<Rightarrow>
     (case dict_get data ''features'' (JArr []) of
        Inl e \<Rightarrow> Inl e
      | Inr feat \<Rightarrow>
          if \<not> truthy feat then Inl (HTTPException 502)
          else
     (case first_item feat of
        Inl e \<Rightarrow> Inl e
      | Inr f0 \<Rightarrow>
     (case item f0 ''properties'' of
        Inl e \<Rightarrow> Inl e
      | Inr props \<Rightarrow>
     (case dict_get props ''summary'' (JObj []) of
        Inl e \<Rightarrow> Inl e
      | Inr summary \<Rightarrow>
     (case dict_get summary ''distance'' (JNum 0) of
        Inl e \<Rightarrow> Inl e
      | Inr dv \<Rightarrow>
     (case number dv of
        Inl e \<Rightarrow> Inl e
      | Inr dist_m \<Rightarrow>
     (case dict_get summary ''duration'' (JNum 0) of
        Inl e \<Rightarrow> Inl e
      | Inr tv \<Rightarrow>
     (case number tv of
        Inl e \<Rightarrow> Inl e
      | Inr dur_s \<Rightarrow>
          Inr \<lparr>geojson = data,
               distance_km = py_round_digits (dist_m / 1000) 3,
               duration_min = py_round (dur_s / 60),
               profile = prof\<rparr>)))))))))"

definition route ::
  "string \<Rightarrow> provider \<Rightarrow> string \<Rightarrow> string \<Rightarrow> string \<Rightarrow> (error + route_result) \<times> request list" where
  "route api_key provider from_coord to_coord prof =
     (case parse_coord from_coord of
        None \<Rightarrow> (Inl (HTTPException 400), [])
      | Some f \<Rightarrow>
     (case parse_coord to_coord of
        None \<Rightarrow> (Inl (HTTPException 400), [])
      | Some t \<Rightarrow>
          ((case provider (route_request api_key prof f t) of
              Inl e \<Rightarrow> Inl e
            | Inr r \<Rightarrow>
                if status_code r \<noteq> 200 then Inl (HTTPException (status_code r))
                else route_answer prof r),
           [route_request api_key prof f t])))"

subsection \<open>The provider's features as data\<close>

text \<open>
  The geocoding result is stated against these readings of a feature: whether its
  geometry is of type Point, its label (the label field when that is a non-empty
  value, else the name field, else null), its coordinate pair in provider order, and
  the entry built from them. \<open>geo_feature\<close> holds of a feature that is an object whose
  geometry, when present, is an object and, when of type Point, has either no
  coordinates or a two-element list, and properties that are absent or an object.
  \<open>result_count\<close> is the number of entries of a returned result.
\<close>

definition member :: "json \<Rightarrow> string \<Rightarrow> json option" where
  "member v k = (case v of JObj kvs \<Rightarrow> map_of kvs k | _ \<Rightarrow> None)"

definition or_null :: "json option \<Rightarrow> json" where
  "or_null v = (case v of None \<Rightarrow> JNull | Some x \<Rightarrow> x)"

definition is_point :: "json \<Rightarrow> bool" where
  "is_point f =
     (case member f ''geometry'' of
        None \<Rightarrow> False
      | Some g \<Rightarrow> member g ''type'' = Some (JStr ''Point''))"

definition point_label :: "json \<Rightarrow> json" where
  "point_label f =
     (case member f ''properties'' of
        None \<Rightarrow> JNull
      | Some p \<Rightarrow>
          if truthy (or_null (member p ''label'')) then or_null (member p ''label'')
          else or_null (member p ''name''))"

definition point_lon_lat :: "json \<Rightarrow> json \<times> json" where
  "point_lon_lat f =
     (case member f ''geometry'' of
        None \<Rightarrow> (JNull, JNull)
      | Some g \<Rightarrow>
          (case member g ''coordinates'' of
             Some (JArr [x, y]) \<Rightarrow> (x, y)
           | _ \<Rightarrow> (JNull, JNull)))"

definition point_entry :: "json \<Rightarrow> json" where
  "point_entry f =
     JObj [(''label'', point_label f),
           (''lat'', snd (point_lon_lat f)),
           (''lon'', fst (point_lon_lat f))]"

definition geo_feature :: "json \<Rightarrow> bool" where
  "geo_feature f =
     (case f of
        JObj fo \<Rightarrow>
          (case map_of fo ''geometry'' of
             None \<Rightarrow> True
           | Some (JObj g) \<Rightarrow>
               if map_of g ''type'' = Some (JStr ''Point'') then
                 (case map_of g ''coordinates'' of
                    None \<Rightarrow> True
                  | Some (JArr [x, y]) \<Rightarrow> True
                  | Some _ \<Rightarrow> False) \<and>
                 (case map_of fo ''properties'' of
                    None \<Rightarrow> True
                  | Some (JObj p) \<Rightarrow> True
                  | Some _ \<Rightarrow> False)
               else True
           | Some _ \<Rightarrow> False)
      | _ \<Rightarrow> False)"

definition result_count :: "error + json \<Rightarrow> nat" where
  "result_count res =
     (case res of
        Inr (JObj [(k, JArr out)]) \<Rightarrow> length out
      | _ \<Rightarrow> 0)"

subsection \<open>Example data\<close>

text \<open>
  A stored entry named with a capital C and a final U+00E9, and a candidate name that
  differs from it in case and in surrounding blanks.
\<close>

definition cafe :: string where
  "cafe = ''Caf'' @ [CHR 0xE9]"

definition cafe_padded :: string where
  "cafe_padded = '' caf'' @ [CHR 0xE9] @ '' ''"

definition cafe_entry :: pydict where
  "cafe_entry = [(''id'', JStr ''0a1b''), (''name'', JStr cafe), (''lat'', JNum 1),
                 (''lon'', JNum 2), (''tags'', JArr [])]"

definition cafe_disk :: disk where
  "cafe_disk = \<lparr>pois_file = Document [cafe_entry], writes = 1\<rparr>"

text \<open>
  The provider response of the route test: one feature whose summary gives 3500
  metres and 2700 seconds.
\<close>

definition paris_summary :: pydict where
  "paris_summary = [(''distance'', JNum 3500), (''duration'', JNum 2700)]"

definition paris_feature :: pydict where
  "paris_feature =
     [(''geometry'',
       JObj [(''type'', JStr ''LineString''),
             (''coordinates'',
              JArr [JArr [JNum (22945 / 10000), JNum (488584 / 10000)],
                    JArr [JNum (23376 / 10000), JNum (488606 / 10000)]])]),
      (''properties'', JObj [(''summary'', JObj paris_summary)])]"

definition paris_geojson :: pydict where
  "paris_geojson = [(''features'', JArr [JObj paris_feature])]"

definition paris_provider :: provider where
  "paris_provider req = Inr \<lparr>status_code = 200, body_json = Some (JObj paris_geojson)\<rparr>"

text \<open>
  Provider responses for the geocoder: the feature of the geocode test after a feature
  that is not a point; a point feature without label and name; six point features.
\<close>

definition moscow_feature :: json where
  "moscow_feature =
     JObj [(''geometry'',
            JObj [(''type'', JStr ''Point''),
                  (''coordinates'', JArr [JNum (376173 / 10000), JNum (557558 / 10000)])]),
           (''properties'',
            JObj [(''label'', JStr ''Moscow, Russia''), (''name'', JStr ''Moscow'')])]"

definition region_feature :: json where
  "region_feature =
     JObj [(''geometry'', JObj [(''type'', JStr ''Polygon''), (''coordinates'', JArr [])]),
           (''properties'', JObj [(''label'', JStr ''Moscow Oblast'')])]"

definition nameless_feature :: json where
  "nameless_feature =
     JObj [(''geometry'',
            JObj [(''type'', JStr ''Point''), (''coordinates'', JArr [JNum 1, JNum 2])]),
           (''properties'', JObj [])]"

definition moscow_features :: "json list" where
  "moscow_features = [region_feature, moscow_feature]"

definition moscow_provider :: provider where
  "moscow_provider req =
     Inr \<lparr>status_code = 200,
          body_json = Some (JObj [(''features'', JArr moscow_features)])\<rparr>"

definition nameless_provider :: provider where
  "nameless_provider req =
     Inr \<lparr>status_code = 200,
          body_json = Some (JObj [(''features'', JArr [nameless_feature])])\<rparr>"

definition crowded_provider :: provider where
  "crowded_provider req =
     Inr \<lparr>status_code = 200,
          body_json = Some (JObj [(''features'', JArr (replicate 6 moscow_feature))])\<rparr>"

section \<open>Properties of the POI store\<close>

subsection \<open>Helper facts\<close>

lemma stored_names_text:
  "\<forall>p\<in>set pois. \<exists>n. map_of p ''name'' = Some (JStr n) \<Longrightarrow>
   \<exists>ns. stored_names pois = Inr ns \<and>
        set ns = {lower (strip n) | p n. p \<in> set pois \<and> map_of p ''name'' = Some (JStr n)}"
proof (induction pois)
  case Nil
  then show ?case by simp
next
  case (Cons p ps)
  then obtain ns where ns: "stored_names ps = Inr ns"
    "set ns = {lower (strip n) | q n. q \<in> set ps \<and> map_of q ''name'' = Some (JStr n)}"
    by auto
  from Cons.prems obtain n where n: "map_of p ''name'' = Some (JStr n)"
    by auto
  have "stored_names (p # ps) = Inr (lower (strip n) # ns)"
    using ns(1) n by simp
  moreover have "set (lower (strip n) # ns) =
      {lower (strip m) | q m. q \<in> set (p # ps) \<and> map_of q ''name'' = Some (JStr m)}"
    using ns(2) n by auto
  ultimately show ?case by blast
qed

lemma name_taken_iff:
  assumes "\<forall>p\<in>set pois. \<exists>n. map_of p ''name'' = Some (JStr n)"
    and "stored_names pois = Inr ns"
  shows "k \<in> set ns \<longleftrightarrow>
         (\<exists>p\<in>set pois. \<exists>n. map_of p ''name'' = Some (JStr n) \<and> lower (strip n) = k)"
  using stored_names_text [OF assms(1)] assms(2) by auto

lemma filter_keeps_length:
  "length (filter P xs) = length xs \<longleftrightarrow> (\<forall>x\<in>set xs. P x)"
  by (metis filter_id_conv filter_True length_filter_less less_le_not_le)

lemma cafe_same_key: "lower (strip cafe) = lower (strip cafe_padded)"
  by code_simp


lemma load_cafe_disk: "load_pois cafe_disk = Inr [cafe_entry]"
  by (simp add: load_pois_def cafe_disk_def)

lemma cafe_entry_named: "\<forall>p\<in>set [cafe_entry]. \<exists>n. map_of p ''name'' = Some (JStr n)"
  by (simp add: cafe_entry_def)

subsection \<open>Create\<close>



text \<open>
  C10. Under the same two conditions, a create whose candidate name collides with a
  stored one returns the disk it was given: the stored document is the same and the
  file was not opened for writing.
\<close>

theorem create_poi_conflict_no_write:
  assumes "load_pois d = Inr pois"
    and "\<forall>p\<in>set pois. \<exists>n. map_of p ''name'' = Some (JStr n)"
    and "\<exists>p\<in>set pois. \<exists>n. map_of p ''name'' = Some (JStr n) \<and>
            lower (strip n) = lower (strip (name poi))"
  shows "fst (create_poi uid poi d) = Inl (HTTPException 409) \<and>
         pois_file (snd (create_poi uid poi d)) = pois_file d \<and>
         writes (snd (create_poi uid poi d)) = writes d"
proof -
  obtain ns where ns: "stored_names pois = Inr ns"
    using stored_names_text [OF assms(2)] by blast
  have "lower (strip (name poi)) \<in> set ns"
    using name_taken_iff [OF assms(2) ns] assms(3) by simp
  then show ?thesis
    using assms(1) ns by (simp add: create_poi_def)
qed

theorem create_poi_conflict_no_write_witness:
  "fst (create_poi ''7c2d'' \<lparr>name = cafe_padded, lat = 3, lon = 4, tags = []\<rparr> cafe_disk)
     = Inl (HTTPException 409) \<and>
   pois_file (snd (create_poi ''7c2d'' \<lparr>name = cafe_padded, lat = 3, lon = 4, tags = []\<rparr>
     cafe_disk)) = Document [cafe_entry] \<and>
   writes (snd (create_poi ''7c2d'' \<lparr>name = cafe_padded, lat = 3, lon = 4, tags = []\<rparr>
     cafe_disk)) = 1"
proof -
  have hit: "\<exists>p\<in>set [cafe_entry]. \<exists>n. map_of p ''name'' = Some (JStr n) \<and>
      lower (strip n) =
      lower (strip (name \<lparr>name = cafe_padded, lat = 3, lon = 4, tags = []\<rparr>))"
    by (simp add: cafe_entry_def cafe_same_key)
  show ?thesis
    using create_poi_conflict_no_write [OF load_cafe_disk cafe_entry_named hit, of "''7c2d''"]
    by (simp add: cafe_disk_def)
qed

text \<open>
  C3. The validator accepts the name that is one blank (its length is 1), and create
  then stores the entry under the empty name.
\<close>

theorem blank_name_stored_empty:
  "PoiIn_validate \<lparr>body_name = '' '', body_lat = 0, body_lon = 0, body_tags = None\<rparr>
     = Inr \<lparr>name = '' '', lat = 0, lon = 0, tags = []\<rparr> \<and>
   create_poi ''7c2d'' \<lparr>name = '' '', lat = 0, lon = 0, tags = []\<rparr>
       \<lparr>pois_file = Missing, writes = 0\<rparr>
     = (Inr [(''id'', JStr ''7c2d''), (''name'', JStr ''''), (''lat'', JNum 0),
             (''lon'', JNum 0), (''tags'', JArr [])],
        \<lparr>pois_file = Document [[(''id'', JStr ''7c2d''), (''name'', JStr ''''),
             (''lat'', JNum 0), (''lon'', JNum 0), (''tags'', JArr [])]], writes = 1\<rparr>)"
proof -
  have st: "strip '' '' = ''''"
    by code_simp
  show ?thesis
    by (simp add: PoiIn_validate_def create_poi_def load_pois_def save_pois_def st Let_def)
qed

subsection \<open>Delete\<close>

text \<open>
  C6. On a loaded collection, \<open>delete_poi\<close> with an identifier that some entry
  carries saves the collection without the entries carrying it, every other entry kept
  in order; with an identifier no entry carries it raises \<open>HTTPException 404\<close> and
  returns the disk it was given.
\<close>

theorem delete_poi_by_id:
  assumes "load_pois d = Inr pois"
  shows "delete_poi poi_id d =
     (if \<exists>p\<in>set pois. map_of p ''id'' = Some (JStr poi_id)
      then (Inr (), save_pois (filter (\<lambda>p. map_of p ''id'' \<noteq> Some (JStr poi_id)) pois) d)
      else (Inl (HTTPException 404), d))"
  using assms by (auto simp: delete_poi_def Let_def filter_keeps_length)

theorem delete_poi_by_id_witness:
  "delete_poi ''0a1b'' cafe_disk = (Inr (), \<lparr>pois_file = Document [], writes = 2\<rparr>) \<and>
   delete_poi ''ffff'' cafe_disk = (Inl (HTTPException 404), cafe_disk)"
  using delete_poi_by_id [OF load_cafe_disk, of "''0a1b''"]
    delete_poi_by_id [OF load_cafe_disk, of "''ffff''"]
  by (simp add: cafe_entry_def save_pois_def cafe_disk_def)

subsection \<open>Listing and the round trip\<close>

text \<open>
  C2. With \<^verbatim>\<open>pois.json\<close> absent, the list handler raises \<open>FileNotFoundError\<close>
  instead of returning the empty collection, whereas \<^verbatim>\<open>load_pois\<close> returns the empty
  collection on the same disk.
\<close>

theorem list_pois_missing_file:
  "list_pois \<lparr>pois_file = Missing, writes = 0\<rparr> = Inl FileNotFoundError \<and>
   load_pois \<lparr>pois_file = Missing, writes = 0\<rparr> = Inr []"
  by (simp add: list_pois_def load_pois_def)

text \<open>
  C8. After \<open>save_pois\<close>, both \<open>load_pois\<close> and \<open>list_pois\<close> return the saved
  collection: the same entries in the same order.
\<close>

theorem save_then_load:
  "load_pois (save_pois pois d) = Inr pois \<and> list_pois (save_pois pois d) = Inr pois"
  by (simp add: load_pois_def list_pois_def save_pois_def)

section \<open>Properties of the gateways\<close>

subsection \<open>Rounding\<close>









subsection \<open>Route\<close>

lemma parse_coord_fails: "parse_coord s = None \<longleftrightarrow> \<not> two_numbers s"
proof (cases "split_comma s")
  case Nil
  then show ?thesis by (simp add: parse_coord_def two_numbers_def)
next
  case (Cons x xs)
  note c1 = Cons
  show ?thesis
  proof (cases xs)
    case Nil
    then show ?thesis
      using c1 by (cases "py_float (strip x)") (simp_all add: parse_coord_def two_numbers_def)
  next
    case (Cons y ys)
    note c2 = Cons
    show ?thesis
    proof (cases ys)
      case Nil
      then show ?thesis
        using c1 c2
        by (cases "py_float (strip x)"; cases "py_float (strip y)")
          (simp_all add: parse_coord_def two_numbers_def)
    next
      case (Cons z zs)
      then show ?thesis
        using c1 c2
        by (cases "py_float (strip x)"; cases "py_float (strip y)")
          (simp_all add: parse_coord_def two_numbers_def)
    qed
  qed
qed

text \<open>
  C7. When either coordinate text is not of the form "lat,lon" (it does not split into
  exactly two parts that \<^verbatim>\<open>float\<close> accepts), \<open>route\<close> raises
  \<open>HTTPException 400\<close> and has sent no request to the provider.
\<close>

theorem route_bad_coordinates:
  assumes "\<not> two_numbers from_coord \<or> \<not> two_numbers to_coord"
  shows "route api_key provider from_coord to_coord prof = (Inl (HTTPException 400), [])"
proof -
  have "parse_coord from_coord = None \<or> parse_coord to_coord = None"
    using assms by (simp add: parse_coord_fails)
  then show ?thesis
    by (auto simp: route_def split: option.splits)
qed

theorem route_bad_coordinates_witness:
  "route ''key'' paris_provider ''invalid'' ''48.8606,2.3376'' ''foot-walking''
     = (Inl (HTTPException 400), []) \<and>
   route ''key'' paris_provider ''48.8584,2.2945'' ''48.8606,2.3376,extra'' ''foot-walking''
     = (Inl (HTTPException 400), [])"
proof -
  have a: "\<not> two_numbers ''invalid''"
    by code_simp
  have b: "\<not> two_numbers ''48.8606,2.3376,extra''"
    by code_simp
  show ?thesis
    using route_bad_coordinates [of "''invalid''" "''48.8606,2.3376''" "''key''" paris_provider
        "''foot-walking''"]
      route_bad_coordinates [of "''48.8584,2.2945''" "''48.8606,2.3376,extra''" "''key''"
        paris_provider "''foot-walking''"] a b
    by simp
qed



subsection \<open>Geocode\<close>

lemma geocode_feature_no_geometry:
  assumes "map_of fo ''geometry'' = None"
  shows "geocode_feature (JObj fo) = Inr None" and "\<not> is_point (JObj fo)"
  using assms
  by (simp_all add: geocode_feature_def dict_get_def is_point_def member_def)

lemma geocode_feature_other_type:
  assumes "map_of fo ''geometry'' = Some (JObj g)"
    and "map_of g ''type'' \<noteq> Some (JStr ''Point'')"
  shows "geocode_feature (JObj fo) = Inr None" and "\<not> is_point (JObj fo)"
proof -
  have "(case map_of g ''type'' of None \<Rightarrow> JNull | Some x \<Rightarrow> x) \<noteq> JStr ''Point''"
    using assms(2) by (cases "map_of g ''type''") simp_all
  then show "geocode_feature (JObj fo) = Inr None"
    using assms(1) by (simp add: geocode_feature_def dict_get_def)
  show "\<not> is_point (JObj fo)"
    using assms by (simp add: is_point_def member_def)
qed

lemma geocode_feature_point:
  assumes "map_of fo ''geometry'' = Some (JObj g)"
    and "map_of g ''type'' = Some (JStr ''Point'')"
    and "map_of g ''coordinates'' = None \<or> (\<exists>x y. map_of g ''coordinates'' = Some (JArr [x, y]))"
    and "map_of fo ''properties'' = None \<or> (\<exists>p. map_of fo ''properties'' = Some (JObj p))"
  shows "geocode_feature (JObj fo) = Inr (Some (point_entry (JObj fo)))"
    and "is_point (JObj fo)"
proof -
  show "is_point (JObj fo)"
    using assms(1,2) by (simp add: is_point_def member_def)
  from assms(3) obtain x y where xy:
    "iterate (case map_of g ''coordinates'' of None \<Rightarrow> JArr [JNull, JNull] | Some c \<Rightarrow> c)
       = Inr [x, y]"
    "point_lon_lat (JObj fo) = (x, y)"
    using assms(1)
    by (auto simp: iterate_def point_lon_lat_def member_def)
  from assms(4) obtain p where p:
    "(case map_of fo ''properties'' of None \<Rightarrow> JObj [] | Some v \<Rightarrow> v) = JObj p"
    "point_label (JObj fo) =
       (if truthy (or_null (map_of p ''label'')) then or_null (map_of p ''label'')
        else or_null (map_of p ''name''))"
    by (auto simp: point_label_def member_def or_null_def truthy_def)
  show "geocode_feature (JObj fo) = Inr (Some (point_entry (JObj fo)))"
    using assms(1,2) xy p
    by (simp add: geocode_feature_def dict_get_def point_entry_def or_null_def)
qed

lemma geocode_feature_geo:
  assumes "geo_feature f"
  shows "geocode_feature f = Inr (if is_point f then Some (point_entry f) else None)"
proof -
  from assms obtain fo where f: "f = JObj fo"
    by (cases f) (simp_all add: geo_feature_def)
  show ?thesis
  proof (cases "map_of fo ''geometry''")
    case None
    then show ?thesis
      using geocode_feature_no_geometry [OF None] f by simp
  next
    case (Some gv)
    with assms f obtain g where g: "gv = JObj g"
      by (cases gv) (simp_all add: geo_feature_def)
    show ?thesis
    proof (cases "map_of g ''type'' = Some (JStr ''Point'')")
      case False
      then show ?thesis
        using geocode_feature_other_type [of fo g] Some g f by simp
    next
      case True
      have c: "map_of g ''coordinates'' = None \<or>
               (\<exists>x y. map_of g ''coordinates'' = Some (JArr [x, y]))"
        using assms f Some g True
        by (auto simp: geo_feature_def split: option.splits json.splits list.splits)
      have p: "map_of fo ''properties'' = None \<or>
               (\<exists>p. map_of fo ''properties'' = Some (JObj p))"
        using assms f Some g True
        by (auto simp: geo_feature_def split: option.splits json.splits)
      show ?thesis
        using geocode_feature_point [of fo g, OF _ True c p] Some g f by simp
    qed
  qed
qed

lemma geocode_loop_geo:
  "list_all geo_feature fs \<Longrightarrow>
   geocode_loop fs = Inr (map point_entry (filter is_point fs))"
  by (induction fs) (simp_all add: geocode_feature_geo)

lemma geocode_loop_length:
  "geocode_loop fs = Inr out \<Longrightarrow> length out \<le> length fs"
proof (induction fs arbitrary: out)
  case Nil
  then show ?case by simp
next
  case (Cons f fs)
  then show ?case
    by (auto split: sum.splits option.splits)
qed

lemma moscow_points:
  "map point_entry (filter is_point moscow_features) =
     [JObj [(''label'', JStr ''Moscow, Russia''), (''lat'', JNum (557558 / 10000)),
            (''lon'', JNum (376173 / 10000))]]"
  by code_simp

lemma moscow_features_geo: "list_all geo_feature moscow_features"
  by code_simp

text \<open>
  C5, as the code has it. For a query of at least two characters and a provider
  answer of status 200 whose feature list holds well-formed features, the result holds
  one entry for each feature of geometry type Point and for no other feature, in
  provider order; the entry carries the label read as above and the provider's
  (lon, lat) pair swapped into lat and lon. Whether the feature has a usable label
  plays no part in the selection.
\<close>

theorem geocode_points:
  assumes "2 \<le> length q"
    and "provider (geocode_request api_key q) = Inr r"
    and "status_code r = 200"
    and "body_json r = Some (JObj data)"
    and "map_of data ''features'' = Some (JArr fs)"
    and "list_all geo_feature fs"
  shows "fst (geocode api_key provider q) =
           Inr (JObj [(''results'', JArr (map point_entry (filter is_point fs)))])"
  using assms(1-5) geocode_loop_geo [OF assms(6)]
  by (simp add: geocode_def dict_get_def iterate_def)

theorem geocode_points_witness:
  "fst (geocode ''key'' moscow_provider ''Moscow'') =
     Inr (JObj [(''results'',
       JArr [JObj [(''label'', JStr ''Moscow, Russia''), (''lat'', JNum (557558 / 10000)),
                   (''lon'', JNum (376173 / 10000))]])])"
proof -
  have "fst (geocode ''key'' moscow_provider ''Moscow'') =
      Inr (JObj [(''results'', JArr (map point_entry (filter is_point moscow_features)))])"
    by (rule geocode_points [where
          r = "\<lparr>status_code = 200,
                 body_json = Some (JObj [(''features'', JArr moscow_features)])\<rparr>"
          and data = "[(''features'', JArr moscow_features)]"])
      (simp_all add: moscow_provider_def moscow_features_geo)
  then show ?thesis
    by (simp only: moscow_points)
qed

text \<open>
  A point feature with neither label nor name is still returned, with a null label.
\<close>

theorem geocode_keeps_unlabelled_point:
  "\<not> truthy (point_label nameless_feature) \<and>
   fst (geocode ''key'' nameless_provider ''ab'') =
     Inr (JObj [(''results'',
       JArr [JObj [(''label'', JNull), (''lat'', JNum 2), (''lon'', JNum 1)]])])"
  by code_simp

text \<open>
  C9, as the code has it. The handler sends one request, which asks for 5 candidates
  (none for a query shorter than two characters), and returns at most as many entries
  as the provider's answer has features. It does not cut the result itself.
\<close>

theorem geocode_size:
  assumes "provider (geocode_request api_key q) = Inr r"
    and "body_json r = Some (JObj data)"
    and "map_of data ''features'' = Some (JArr fs)"
  shows "snd (geocode api_key provider q) =
           (if length q < 2 then []
            else [Get (BASE_GEO @ ''/search'') [(''Authorization'', api_key)]
                    [(''api_key'', JStr api_key), (''text'', JStr q), (''size'', JNum 5)]]) \<and>
         result_count (fst (geocode api_key provider q)) \<le> length fs"
proof -
  have req: "snd (geocode api_key provider q) =
           (if length q < 2 then []
            else [Get (BASE_GEO @ ''/search'') [(''Authorization'', api_key)]
                    [(''api_key'', JStr api_key), (''text'', JStr q), (''size'', JNum 5)]])"
    by (simp add: geocode_def geocode_request_def)
  have cnt: "result_count (fst (geocode api_key provider q)) \<le> length fs"
  proof (cases "geocode_loop fs")
    case (Inl e)
    then show ?thesis
      using assms by (simp add: geocode_def dict_get_def iterate_def result_count_def)
  next
    case (Inr out)
    then show ?thesis
      using assms geocode_loop_length [OF Inr]
      by (simp add: geocode_def dict_get_def iterate_def result_count_def)
  qed
  show ?thesis using req cnt by simp
qed


theorem geocode_size_witness:
  "snd (geocode ''key'' crowded_provider ''Moscow'') =
     [Get (BASE_GEO @ ''/search'') [(''Authorization'', ''key'')]
        [(''api_key'', JStr ''key''), (''text'', JStr ''Moscow''), (''size'', JNum 5)]] \<and>
   result_count (fst (geocode ''key'' crowded_provider ''Moscow'')) \<le> 6"
  using geocode_size [where provider = crowded_provider and api_key = "''key''"
      and q = "''Moscow''"
      and r = "\<lparr>status_code = 200,
          body_json = Some (JObj [(''features'', JArr (replicate 6 moscow_feature))])\<rparr>"
      and data = "[(''features'', JArr (replicate 6 moscow_feature))]"
      and fs = "replicate 6 moscow_feature"]
  by (simp add: crowded_provider_def)

text \<open>
  A provider answer with six point features yields six results.
\<close>

theorem geocode_six_results:
  "result_count (fst (geocode ''key'' crowded_provider ''Moscow'')) = 6"
  by code_simp

end
